theory Spec2Isabelle
  imports Complex_Main "HOL-Library.Log_Nat" "HOL-Library.DAList" "HOL-Library.Sublist"
begin

section \<open>Python arithmetic used by the backends\<close>

text \<open>
  The backends compute buffer lengths as \<^verbatim>\<open>int(sample_rate * duration)\<close> with
  \<^verbatim>\<open>duration = len(text) / 20\<close>, and the cache statistics as
  \<^verbatim>\<open>round(total_size / (1024 * 1024), 2)\<close>. Both run in IEEE binary64, and the
  rounding is visible in the results, so it is modelled: a double is the rational it
  denotes, and \<open>fl\<close> rounds a rational to the nearest double (53 significant bits,
  ties to even). The exponent range is not bounded: overflow and subnormals are out of
  reach of the quantities computed here.
\<close>

definition round_half_even :: "rat \<Rightarrow> int" where
  "round_half_even q =
     (let f = \<lfloor>q\<rfloor>; r = q - of_int f
      in if r < 1 / 2 then f else if 1 / 2 < r then f + 1 else if even f then f else f + 1)"

text \<open>\<open>flog2 x\<close> is the exponent \<open>e\<close> with \<open>2 ^ e \<le> x < 2 ^ (e + 1)\<close>, for \<open>x > 0\<close>.\<close>

definition flog2 :: "rat \<Rightarrow> int" where
  "flog2 x = (if 1 \<le> x then bitlen \<lfloor>x\<rfloor> - 1 else - bitlen (\<lceil>1 / x\<rceil> - 1))"

definition pow2 :: "int \<Rightarrow> rat" where
  "pow2 e = (if 0 \<le> e then 2 ^ nat e else 1 / 2 ^ nat (- e))"

definition fl :: "rat \<Rightarrow> rat" where
  "fl x = (if x = 0 then 0
           else let a = \<bar>x\<bar>; u = pow2 (flog2 a - 52)
                in sgn x * of_int (round_half_even (a / u)) * u)"

text \<open>\<^verbatim>\<open>int(x)\<close> on a float truncates towards zero.\<close>

definition py_int :: "rat \<Rightarrow> int" where
  "py_int x = (if 0 \<le> x then \<lfloor>x\<rfloor> else \<lceil>x\<rceil>)"

text \<open>
  \<^verbatim>\<open>round(x, 2)\<close> on a float: the decimal with two places nearest to the exact value
  of \<open>x\<close> (ties to even), converted back to a double.
\<close>

definition py_round2 :: "rat \<Rightarrow> rat" where
  "py_round2 x = fl (of_int (round_half_even (x * 100)) / 100)"

text \<open>
  \<^verbatim>\<open>duration = len(text) / cps; n = int(sample_rate * duration)\<close>: a true division
  of two ints, a product of an int and a float, a truncation.
\<close>

definition silence_len :: "int \<Rightarrow> int \<Rightarrow> int \<Rightarrow> int" where
  "silence_len sample_rate cps n =
     (let duration = fl (of_int n / of_int cps)
      in py_int (fl (of_int sample_rate * duration)))"

text \<open>\<^verbatim>\<open>np.zeros(n, dtype=np.float32)\<close>; samples are modelled as reals.\<close>

type_synonym audio = "real list"

definition zeros :: "int \<Rightarrow> audio" where
  "zeros n = replicate (nat n) 0"


section \<open>The cache directory\<close>

text \<open>
  A file of the cache directory either decodes as a sound file (\<open>Wav a r\<close>: the samples
  \<open>a\<close> that \<^verbatim>\<open>sf.read\<close> returns for it and its sample rate \<open>r\<close>), or it is one on
  which \<^verbatim>\<open>sf.read\<close> raises (\<open>Garbage\<close>, with its bytes: a corrupt, truncated or
  otherwise unreadable file). The directory maps file names to files; its listing order is
  the order of the underlying list.
\<close>

datatype file_data = Wav audio nat | Garbage "nat list"

type_synonym directory = "(string, file_data) alist"

datatype error = SoundFileError | FileNotFoundError

text \<open>
  \<^verbatim>\<open>f.stat().st_size\<close>: a mono 16-bit PCM WAV file is a 44-byte header and two bytes
  per sample.
\<close>

fun st_size :: "file_data \<Rightarrow> int" where
  "st_size (Wav a r) = 44 + 2 * int (length a)"
| "st_size (Garbage bs) = int (length bs)"

fun sf_read :: "file_data \<Rightarrow> error + (audio \<times> nat)" where
  "sf_read (Wav a r) = Inr (a, r)"
| "sf_read (Garbage bs) = Inl SoundFileError"

text \<open>
  \<^verbatim>\<open>sf.write(path, audio, sample_rate)\<close>. The file format quantises the samples:
  \<open>codec\<close> is the function from a sample written to the sample read back, a parameter.
  Whether the write succeeds is the environment's choice, the parameter \<open>write_ok\<close>; a
  failed write raises and is modelled as leaving the directory as it was.
\<close>

definition sf_write ::
  "(real \<Rightarrow> real) \<Rightarrow> bool \<Rightarrow> directory \<Rightarrow> string \<Rightarrow> audio \<Rightarrow> nat \<Rightarrow> error + directory" where
  "sf_write codec write_ok d path a sample_rate =
     (if write_ok then Inr (DAList.update path (Wav (map codec a) sample_rate) d)
      else Inl SoundFileError)"

text \<open>
  \<^verbatim>\<open>Path.glob\<close> on a pattern of literal characters and \<^verbatim>\<open>*\<close>, the only pattern
  syntax the repository uses (\<^verbatim>\<open>"*.wav"\<close>).
\<close>

fun fnmatch :: "string \<Rightarrow> string \<Rightarrow> bool" where
  "fnmatch [] s = (s = [])"
| "fnmatch (p # ps) [] = (p = CHR ''*'' \<and> fnmatch ps [])"
| "fnmatch (p # ps) (c # cs) =
     (if p = CHR ''*'' then fnmatch ps (c # cs) \<or> fnmatch (p # ps) cs
      else p = c \<and> fnmatch ps cs)"

definition glob :: "string \<Rightarrow> directory \<Rightarrow> (string \<times> file_data) list" where
  "glob pattern d = filter (\<lambda>(name, f). fnmatch pattern name) (DAList.impl_of d)"

text \<open>\<^verbatim>\<open>Path.unlink()\<close> raises when the file is not there.\<close>

definition unlink :: "string \<Rightarrow> directory \<Rightarrow> error + directory" where
  "unlink name d =
     (case DAList.lookup d name of
        None \<Rightarrow> Inl FileNotFoundError
      | Some f \<Rightarrow> Inr (DAList.delete name d))"


section \<open>The state a backend works on\<close>

text \<open>
  What a backend prints is part of its behaviour (a cache hit, a new synthesis, a
  swallowed failure are told apart by it), so the state is the cache directory and the
  lines printed so far, one constructor per message of the source.
\<close>

datatype event =
    CacheHit | GeneratedCached | Generating | Generated | GeneratedFallback
  | Cached | CacheSaveFailed | GenerationFailed | ApiKeyNotSet | ReturningFallbackBeep
  | CacheCleared

record world =
  files :: directory
  out :: "event list"

definition print :: "event \<Rightarrow> world \<Rightarrow> world" where
  "print e w = w\<lparr>out := out w @ [e]\<rparr>"


section \<open>The caching wrapper shared by the backends\<close>

text \<open>
  \<^verbatim>\<open>hashlib.md5(s.encode('utf-8')).hexdigest()\<close> is a library function: the
  parameter \<open>md5_hex\<close>, from the string \<open>s\<close> to its digest in hexadecimal.
  \<^verbatim>\<open>_get_cache_key\<close> of \<^verbatim>\<open>holly_fish_voice.py\<close>, and word for word of
  \<^verbatim>\<open>holly_fish_voice_v2.py\<close> and \<^verbatim>\<open>holly_fish_voice_cloud.py\<close>:
\<close>

definition get_cache_key :: "(string \<Rightarrow> string) \<Rightarrow> string \<Rightarrow> string \<Rightarrow> string" where
  "get_cache_key md5_hex text voice = md5_hex (text @ '':'' @ voice)"


definition piper_get_cache_key :: "(string \<Rightarrow> string) \<Rightarrow> string \<Rightarrow> string" where
  "piper_get_cache_key md5_hex text = md5_hex text"

text \<open>\<^verbatim>\<open>_get_cache_path\<close>: the file's name inside \<^verbatim>\<open>CACHE_DIR\<close>.\<close>

definition get_cache_path :: "string \<Rightarrow> string" where
  "get_cache_path cache_key = cache_key @ ''.wav''"

text \<open>
  \<^verbatim>\<open>_load_from_cache\<close>: the sample rate read from the file is dropped, and whatever
  \<^verbatim>\<open>sf.read\<close> raises is swallowed.
\<close>

definition load_from_cache :: "world \<Rightarrow> string \<Rightarrow> world \<times> audio option" where
  "load_from_cache w cache_key =
     (case DAList.lookup (files w) (get_cache_path cache_key) of
        None \<Rightarrow> (w, None)
      | Some f \<Rightarrow>
          (case sf_read f of
             Inr (a, sr) \<Rightarrow> (print CacheHit w, Some a)
           | Inl e \<Rightarrow> (w, None)))"

text \<open>\<^verbatim>\<open>_save_to_cache\<close>: a failure of the write is printed and swallowed.\<close>

definition save_to_cache ::
  "(real \<Rightarrow> real) \<Rightarrow> bool \<Rightarrow> world \<Rightarrow> string \<Rightarrow> audio \<Rightarrow> nat \<Rightarrow> world" where
  "save_to_cache codec write_ok w cache_key a sample_rate =
     (case sf_write codec write_ok (files w) (get_cache_path cache_key) a sample_rate of
        Inr d \<Rightarrow> print Cached (w\<lparr>files := d\<rparr>)
      | Inl e \<Rightarrow> print CacheSaveFailed w)"


section \<open>The template backend: \<^verbatim>\<open>holly_fish_voice.py\<close>\<close>

text \<open>
  \<^verbatim>\<open>HollyFishVoice.generate\<close>. The model call is a TODO in the source; the body of
  its \<^verbatim>\<open>try\<close> block builds the placeholder, silence of about one second per twenty
  characters. No statement of that block raises in the model, so the handler that prints
  and re-raises has no branch here.
\<close>

definition generate ::
  "(string \<Rightarrow> string) \<Rightarrow> (real \<Rightarrow> real) \<Rightarrow> bool \<Rightarrow> world \<Rightarrow> string \<Rightarrow> string \<Rightarrow> bool
     \<Rightarrow> world \<times> (audio \<times> nat)" where
  "generate md5_hex codec write_ok w text voice use_cache =
     (let cache_key = get_cache_key md5_hex text voice;
          (w1, cached_audio) = (if use_cache then load_from_cache w cache_key else (w, None))
      in case cached_audio of
           Some a \<Rightarrow> (print GeneratedCached w1, (a, 24000))
         | None \<Rightarrow>
             (let w2 = print Generating w1;
                  sample_rate = 24000;
                  a = zeros (silence_len (int sample_rate) 20 (int (length text)));
                  w3 = print Generated w2;
                  w4 = (if use_cache then save_to_cache codec write_ok w3 cache_key a sample_rate
                        else w3)
              in (w4, (a, sample_rate))))"

record cache_stats =
  cached_phrases :: nat
  total_size_mb :: rat
  cache_dir :: string

definition CACHE_DIR :: string where
  "CACHE_DIR = ''/tmp/holly_fish_cache''"

definition get_cache_stats :: "world \<Rightarrow> cache_stats" where
  "get_cache_stats w =
     (let cache_files = glob ''*.wav'' (files w);
          total_size = sum_list (map (\<lambda>(name, f). st_size f) cache_files)
      in \<lparr>cached_phrases = length cache_files,
          total_size_mb = py_round2 (fl (of_int total_size / of_int (1024 * 1024))),
          cache_dir = CACHE_DIR\<rparr>)"

text \<open>\<^verbatim>\<open>clear_cache\<close>: the loop over the listing stops at the first unlink that raises.\<close>

fun unlink_all :: "string list \<Rightarrow> directory \<Rightarrow> error + directory" where
  "unlink_all [] d = Inr d"
| "unlink_all (name # names) d =
     (case unlink name d of Inl e \<Rightarrow> Inl e | Inr d' \<Rightarrow> unlink_all names d')"

definition clear_cache :: "world \<Rightarrow> error + world" where
  "clear_cache w =
     (case unlink_all (map fst (glob ''*.wav'' (files w))) (files w) of
        Inl e \<Rightarrow> Inl e
      | Inr d \<Rightarrow> Inr (print CacheCleared (w\<lparr>files := d\<rparr>)))"


section \<open>The local-model backend: \<^verbatim>\<open>holly_fish_voice_v2.py\<close>\<close>

text \<open>
  The inference engine is an external collaborator: what the \<^verbatim>\<open>try\<close> block of
  \<^verbatim>\<open>generate\<close> does up to the conversion of the result to float32 samples is the
  environment's choice, the parameter of type \<open>inference_outcome\<close>. It either raises
  (in the engine or in the conversion) or returns samples.
\<close>

datatype inference_outcome = InferenceRaises | InferenceReturns audio

text \<open>
  \<^verbatim>\<open>np.linspace(start, stop, num)\<close>: \<open>num\<close> evenly spaced points with both ends
  included.
\<close>

definition linspace :: "real \<Rightarrow> real \<Rightarrow> int \<Rightarrow> real list" where
  "linspace start stop num =
     (if num = 1 then [start]
      else map (\<lambda>i. start + real i * ((stop - start) / real_of_int (num - 1))) [0..<nat num])"

text \<open>
  The fallback of the handler: \<^verbatim>\<open>np.sin(2 * np.pi * 440 * t) * 0.3\<close> over
  \<^verbatim>\<open>t = np.linspace(0, duration, int(sample_rate * duration))\<close> with a duration of
  half a second. The samples are the real numbers the floating-point computation
  approximates.
\<close>

definition fallback_beep :: audio where
  "fallback_beep =
     (let sample_rate = 24000; duration = 1 / 2;
          t = linspace 0 (real_of_rat duration) (py_int (fl (of_int sample_rate * duration)))
      in map (\<lambda>x. sin (2 * pi * 440 * x) * (3 / 10)) t)"

definition v2_generate ::
  "(string \<Rightarrow> string) \<Rightarrow> (real \<Rightarrow> real) \<Rightarrow> inference_outcome \<Rightarrow> bool \<Rightarrow> world \<Rightarrow> string \<Rightarrow> string
     \<Rightarrow> bool \<Rightarrow> world \<times> (audio \<times> nat)" where
  "v2_generate md5_hex codec inference write_ok w text voice use_cache =
     (let cache_key = get_cache_key md5_hex text voice;
          (w1, cached_audio) = (if use_cache then load_from_cache w cache_key else (w, None))
      in case cached_audio of
           Some a \<Rightarrow> (print GeneratedCached w1, (a, 24000))
         | None \<Rightarrow>
             (let w2 = print Generating w1
              in case inference of
                   InferenceReturns a \<Rightarrow>
                     (let sample_rate = 24000;
                          w3 = print Generated w2;
                          w4 = (if use_cache
                                then save_to_cache codec write_ok w3 cache_key a sample_rate
                                else w3)
                      in (w4, (a, sample_rate)))
                 | InferenceRaises \<Rightarrow>
                     (print ReturningFallbackBeep (print GenerationFailed w2),
                      (fallback_beep, 24000))))"


section \<open>The cloud backend: \<^verbatim>\<open>holly_fish_voice_cloud.py\<close>\<close>

text \<open>
  The HTTP request either raises (a timeout after 30 seconds, a connection error) or
  returns a response: its status code and its body, the file that \<^verbatim>\<open>sf.read\<close> is
  given. The API key is the value of the environment variable, if set.
\<close>

datatype http_outcome = RequestRaises | Response int file_data

definition cloud_generate ::
  "(string \<Rightarrow> string) \<Rightarrow> (real \<Rightarrow> real) \<Rightarrow> string option \<Rightarrow> http_outcome \<Rightarrow> bool \<Rightarrow> world
     \<Rightarrow> string \<Rightarrow> string \<Rightarrow> bool \<Rightarrow> world \<times> (audio \<times> nat)" where
  "cloud_generate md5_hex codec api_key http write_ok w text voice use_cache =
     (let cache_key = get_cache_key md5_hex text voice;
          (w1, cached_audio) = (if use_cache then load_from_cache w cache_key else (w, None))
      in case cached_audio of
           Some a \<Rightarrow> (print GeneratedCached w1, (a, 24000))
         | None \<Rightarrow>
             (let w2 = print Generating w1;
                  silence = zeros (silence_len 24000 20 (int (length text)));
                  handler = (print GenerationFailed w2, (silence, 24000))
              in if api_key = None \<or> api_key = Some []
                 then (print GeneratedFallback (print ApiKeyNotSet w2), (silence, 24000))
                 else
                   (case http of
                      RequestRaises \<Rightarrow> handler
                    | Response status_code body \<Rightarrow>
                        if status_code \<noteq> 200 then handler
                        else
                          (case sf_read body of
                             Inl e \<Rightarrow> handler
                           | Inr (a, sample_rate) \<Rightarrow>
                               (let w3 = print Generated w2;
                                    w4 = (if use_cache
                                          then save_to_cache codec write_ok w3 cache_key a
                                                 sample_rate
                                          else w3)
                                in (w4, (a, sample_rate)))))))"


section \<open>The self-hosted backends: \<^verbatim>\<open>holly_piper_voice.py\<close>, \<^verbatim>\<open>holly_gtts_voice.py\<close>\<close>

text \<open>
  The key for a request, as \<^verbatim>\<open>generate\<close> of these two backends computes it
  (\<^verbatim>\<open>cache_key = self._get_cache_key(text)\<close>): the voice of the request is not
  passed on.
\<close>

definition piper_request_key :: "(string \<Rightarrow> string) \<Rightarrow> string \<Rightarrow> string \<Rightarrow> string" where
  "piper_request_key md5_hex text voice = piper_get_cache_key md5_hex text"


text \<open>
  \<^verbatim>\<open>subprocess.run\<close> of the synthesiser, with a timeout of 30 seconds: it raises
  when the time is up or the program cannot be started, or the process completes with a
  return code and leaves the output file.
\<close>

datatype run_outcome = TimeoutExpired | CannotStart | Completed int file_data

definition piper_generate ::
  "(string \<Rightarrow> string) \<Rightarrow> (real \<Rightarrow> real) \<Rightarrow> run_outcome \<Rightarrow> bool \<Rightarrow> world \<Rightarrow> string \<Rightarrow> string
     \<Rightarrow> bool \<Rightarrow> world \<times> (audio \<times> nat)" where
  "piper_generate md5_hex codec run write_ok w text voice use_cache =
     (let cache_key = piper_request_key md5_hex text voice;
          (w1, cached_audio) = (if use_cache then load_from_cache w cache_key else (w, None))
      in case cached_audio of
           Some a \<Rightarrow> (print GeneratedCached w1, (a, 22050))
         | None \<Rightarrow>
             (let w2 = print Generating w1;
                  handler = (print GenerationFailed w2,
                             (zeros (silence_len 22050 15 (int (length text))), 22050))
              in case run of
                   TimeoutExpired \<Rightarrow> handler
                 | CannotStart \<Rightarrow> handler
                 | Completed returncode output_file \<Rightarrow>
                     if returncode \<noteq> 0 then handler
                     else
                       (case sf_read output_file of
                          Inl e \<Rightarrow> handler
                        | Inr (a, sample_rate) \<Rightarrow>
                            (let w3 = print Generated w2;
                                 w4 = (if use_cache
                                       then save_to_cache codec write_ok w3 cache_key a
                                              sample_rate
                                       else w3)
                             in (w4, (a, sample_rate))))))"


section \<open>When the external call counts as failed\<close>

text \<open>
  A request to the cloud API fails when it raises or the status is not 200; a run of the
  synthesiser fails when it raises (the timeout, a program that cannot be started) or the
  return code is not zero.
\<close>

fun http_failed :: "http_outcome \<Rightarrow> bool" where
  "http_failed RequestRaises = True"
| "http_failed (Response status_code body) = (status_code \<noteq> 200)"

fun run_failed :: "run_outcome \<Rightarrow> bool" where
  "run_failed TimeoutExpired = True"
| "run_failed CannotStart = True"
| "run_failed (Completed returncode output_file) = (returncode \<noteq> 0)"


section \<open>Facts about the arithmetic\<close>

text \<open>
  Rounding to a double moves a positive number by at most \<open>2\<^sup>-\<^sup>5\<^sup>3\<close> of itself, so
  the length of the silence for \<open>n\<close> characters is \<open>1200 * n\<close> or one less.
\<close>

lemma pow2_powi: "pow2 e = 2 powi e"
  by (simp add: pow2_def power_int_def inverse_eq_divide power_one_over)

lemma pow2_pos: "0 < pow2 e"
  by (simp add: pow2_powi)

lemma pow2_shift: "pow2 (e - 52) = pow2 e / 2 ^ 52"
  by (simp add: pow2_powi power_int_diff)

lemma flog2_bounds:
  assumes "0 < x"
  shows "pow2 (flog2 x) \<le> x \<and> x < 2 * pow2 (flog2 x)"
proof (cases "1 \<le> x")
  case True
  let ?m = "\<lfloor>x\<rfloor>"
  from True have m: "0 < ?m" by simp
  from bitlen_bounds [OF m] have lo: "2 ^ nat (bitlen ?m - 1) \<le> ?m" and hi: "?m < 2 ^ nat (bitlen ?m)"
    by auto
  from m have b: "1 \<le> bitlen ?m" by (simp add: bitlen_alt_def)
  have e: "flog2 x = bitlen ?m - 1" using True by (simp add: flog2_def)
  have p: "pow2 (flog2 x) = 2 ^ nat (bitlen ?m - 1)" using b by (simp add: e pow2_def)
  have "(2::rat) ^ nat (bitlen ?m - 1) = of_int (2 ^ nat (bitlen ?m - 1))" by simp
  also have "\<dots> \<le> of_int ?m" using lo by (simp only: of_int_le_iff)
  also have "\<dots> \<le> x" by simp
  finally have A: "pow2 (flog2 x) \<le> x" by (simp add: p)
  from hi have "?m + 1 \<le> 2 ^ nat (bitlen ?m)" by simp
  then have "of_int (?m + 1) \<le> (of_int (2 ^ nat (bitlen ?m)) :: rat)" by (simp only: of_int_le_iff)
  moreover have "x < of_int (?m + 1)" by linarith
  ultimately have "x < 2 ^ nat (bitlen ?m)" by simp
  also have "(2::rat) ^ nat (bitlen ?m) = 2 * 2 ^ nat (bitlen ?m - 1)"
    using b by (simp add: power_Suc [symmetric] Suc_nat_eq_nat_zadd1 del: power_Suc)
  finally have B: "x < 2 * pow2 (flog2 x)" by (simp add: p)
  from A B show ?thesis ..
next
  case False
  let ?y = "1 / x"
  let ?m = "\<lceil>?y\<rceil> - 1"
  from False assms have y: "1 < ?y" by simp
  then have m: "0 < ?m" by linarith
  from bitlen_bounds [OF m] have lo: "2 ^ nat (bitlen ?m - 1) \<le> ?m" and hi: "?m < 2 ^ nat (bitlen ?m)"
    by auto
  from m have b: "1 \<le> bitlen ?m" by (simp add: bitlen_alt_def)
  have e: "flog2 x = - bitlen ?m" using False by (simp add: flog2_def)
  have p: "pow2 (flog2 x) = 1 / 2 ^ nat (bitlen ?m)" using b by (simp add: e pow2_def)
  have my: "of_int ?m < ?y" by linarith
  have ym: "?y \<le> of_int (?m + 1)" by simp
  from hi have "?m + 1 \<le> 2 ^ nat (bitlen ?m)" by simp
  then have "of_int (?m + 1) \<le> (of_int (2 ^ nat (bitlen ?m)) :: rat)" by (simp only: of_int_le_iff)
  then have "rat_of_int (?m + 1) \<le> 2 ^ nat (bitlen ?m)" by simp
  moreover have "?y \<le> rat_of_int (?m + 1)" using le_of_int_ceiling [of ?y] by simp
  ultimately have yhi: "?y \<le> 2 ^ nat (bitlen ?m)" by (rule order_trans [rotated])
  have "(of_int (2 ^ nat (bitlen ?m - 1)) :: rat) \<le> of_int ?m" using lo by (simp only: of_int_le_iff)
  with my have ylo: "2 ^ nat (bitlen ?m - 1) < ?y" by simp
  have pw: "(2::rat) ^ nat (bitlen ?m) = 2 * 2 ^ nat (bitlen ?m - 1)"
    using b by (simp add: power_Suc [symmetric] Suc_nat_eq_nat_zadd1 del: power_Suc)
  have P: "(0::rat) < 2 ^ nat (bitlen ?m)" by simp
  from yhi assms P have A: "1 / 2 ^ nat (bitlen ?m) \<le> x"
    by (simp add: field_simps)
  have Q: "(0::rat) < 2 ^ nat (bitlen ?m - 1)" by simp
  from ylo assms Q have "x < 1 / 2 ^ nat (bitlen ?m - 1)"
    by (simp add: field_simps)
  also have "\<dots> = 2 * (1 / 2 ^ nat (bitlen ?m))" by (simp add: pw)
  finally have B: "x < 2 * (1 / 2 ^ nat (bitlen ?m))" .
  from A B show ?thesis by (simp add: p)
qed

lemma round_half_even_err: "\<bar>of_int (round_half_even q) - q\<bar> \<le> 1 / 2"
proof -
  have "of_int \<lfloor>q\<rfloor> \<le> q" "q < of_int \<lfloor>q\<rfloor> + 1" by linarith+
  then show ?thesis
    by (auto simp: round_half_even_def Let_def)
qed

lemma fl_err:
  assumes "0 < x"
  shows "\<bar>fl x - x\<bar> \<le> x / 2 ^ 53"
proof -
  let ?u = "pow2 (flog2 x - 52)"
  have u: "0 < ?u" by (rule pow2_pos)
  have f: "fl x = of_int (round_half_even (x / ?u)) * ?u"
    using assms by (simp add: fl_def Let_def)
  have "fl x - x = (of_int (round_half_even (x / ?u)) - x / ?u) * ?u"
    using u by (simp add: f left_diff_distrib)
  then have "\<bar>fl x - x\<bar> = \<bar>of_int (round_half_even (x / ?u)) - x / ?u\<bar> * ?u"
    using u by (simp add: abs_mult)
  also have "\<dots> \<le> (1 / 2) * ?u"
    using round_half_even_err [of "x / ?u"] u by (intro mult_right_mono) auto
  also have "\<dots> = pow2 (flog2 x) / 2 ^ 53" by (simp add: pow2_shift)
  also have "\<dots> \<le> x / 2 ^ 53"
    using flog2_bounds [OF assms] by (simp add: divide_right_mono)
  finally show ?thesis .
qed

lemma silence_len_bounds:
  assumes "0 \<le> n" and "n \<le> 10 ^ 12"
  shows "1200 * n - 1 \<le> silence_len 24000 20 n \<and> silence_len 24000 20 n \<le> 1200 * n"
proof (cases "n = 0")
  case True
  then show ?thesis by (simp add: silence_len_def fl_def py_int_def)
next
  case False
  with assms have n: "0 < n" by simp
  let ?x = "rat_of_int n / 20"
  let ?y = "fl ?x"
  let ?w = "24000 * ?y"
  let ?z = "fl ?w"
  have x: "0 < ?x" using n by simp
  have p: "(2::rat) ^ 53 = 9007199254740992" by simp
  have ey: "\<bar>?y - ?x\<bar> \<le> ?x / 2 ^ 53" by (rule fl_err [OF x])
  from ey [unfolded p] have y1: "?x - ?x / 9007199254740992 \<le> ?y" and y2: "?y \<le> ?x + ?x / 9007199254740992"
    by linarith+
  from y1 x have y: "0 < ?y" by linarith
  then have w: "0 < ?w" by simp
  have ez: "\<bar>?z - ?w\<bar> \<le> ?w / 2 ^ 53" by (rule fl_err [OF w])
  from ez [unfolded p] have z1: "?w - ?w / 9007199254740992 \<le> ?z" and z2: "?z \<le> ?w + ?w / 9007199254740992"
    by linarith+
  have "rat_of_int n \<le> rat_of_int (10 ^ 12)" using assms(2) by (simp only: of_int_le_iff)
  then have nb: "rat_of_int n \<le> 1000000000000" by simp
  have n0: "0 < rat_of_int n" using n by simp
  from y1 z1 nb n0 have lo: "1200 * rat_of_int n - 1 < ?z" by linarith
  from y2 z2 nb n0 have hi: "?z < 1200 * rat_of_int n + 1" by linarith
  from z1 w have z0: "0 \<le> ?z" by linarith
  have s: "silence_len 24000 20 n = \<lfloor>?z\<rfloor>"
    using z0 by (simp add: silence_len_def py_int_def Let_def)
  from lo have "rat_of_int (1200 * n - 1) < ?z" by simp
  then have A: "1200 * n - 1 \<le> \<lfloor>?z\<rfloor>" by (simp only: le_floor_iff less_imp_le)
  from hi have "?z < rat_of_int (1200 * n + 1)" by simp
  then have "\<lfloor>?z\<rfloor> < 1200 * n + 1" by (simp only: floor_less_iff)
  with A show ?thesis by (simp add: s)
qed

lemma silence_len_5: "silence_len 24000 20 5 = 6000"
  by code_simp

lemma cloud_generate_without_key:
  "cloud_generate md5_hex codec None http write_ok w text voice False =
     (print GeneratedFallback (print ApiKeyNotSet (print Generating w)),
      (replicate (nat (silence_len 24000 20 (int (length text)))) 0, 24000))
   \<and> cloud_generate md5_hex codec (Some []) http write_ok w text voice False =
     (print GeneratedFallback (print ApiKeyNotSet (print Generating w)),
      (replicate (nat (silence_len 24000 20 (int (length text)))) 0, 24000))"
  by (simp add: cloud_generate_def Let_def zeros_def)


section \<open>Facts about the shared wrapper\<close>

lemma files_print [simp]: "files (print e w) = files w"
  by (simp add: print_def)

lemma out_print [simp]: "out (print e w) = out w @ [e]"
  by (simp add: print_def)

lemma load_from_cache_miss_state:
  "snd (load_from_cache w k) = None \<Longrightarrow> fst (load_from_cache w k) = w"
  by (auto simp: load_from_cache_def split: option.splits sum.splits)

lemma save_to_cache_fails:
  "save_to_cache codec False w k a r = print CacheSaveFailed w"
  by (simp add: save_to_cache_def sf_write_def)

lemma save_to_cache_ok:
  "save_to_cache codec True w k a r =
     print Cached (w\<lparr>files := DAList.update (get_cache_path k) (Wav (map codec a) r) (files w)\<rparr>)"
  by (simp add: save_to_cache_def sf_write_def)


lemma load_garbage:
  "DAList.lookup (files w) (get_cache_path k) = Some (Garbage bs) \<Longrightarrow> load_from_cache w k = (w, None)"
  by (simp add: load_from_cache_def)

lemma load_wav:
  "DAList.lookup (files w) (get_cache_path k) = Some (Wav a r) \<Longrightarrow>
   load_from_cache w k = (print CacheHit w, Some a)"
  by (simp add: load_from_cache_def)

lemma load_absent:
  "DAList.lookup (files w) (get_cache_path k) = None \<Longrightarrow> load_from_cache w k = (w, None)"
  by (simp add: load_from_cache_def)

lemma generate_miss:
  "load_from_cache w (get_cache_key md5_hex text voice) = (w, None) \<Longrightarrow>
   generate md5_hex codec write_ok w text voice True =
     (save_to_cache codec write_ok (print Generated (print Generating w))
        (get_cache_key md5_hex text voice) (zeros (silence_len 24000 20 (int (length text)))) 24000,
      (zeros (silence_len 24000 20 (int (length text))), 24000))"
  by (simp add: generate_def Let_def)

lemma generate_hit:
  "load_from_cache w (get_cache_key md5_hex text voice) = (w1, Some a) \<Longrightarrow>
   generate md5_hex codec write_ok w text voice True = (print GeneratedCached w1, (a, 24000))"
  by (simp add: generate_def)


lemma cache_lookup_miss:
  "snd (if use_cache then load_from_cache w k else (w, None)) = None \<Longrightarrow>
   (if use_cache then load_from_cache w k else (w, None)) = (w, None)"
  using load_from_cache_miss_state [of w k]
  by (cases use_cache; cases "load_from_cache w k") auto

lemma silence_len_2: "silence_len 24000 20 2 = 2400"
  by code_simp

lemma silence_len_23: "silence_len 24000 20 23 = 27599"
  by code_simp


lemma separator_collision:
  "get_cache_key md5_hex ''a:b'' ''c'' = get_cache_key md5_hex ''a'' ''b:c''"
  by (simp add: get_cache_key_def)



section \<open>Facts about the directory operations\<close>

lemma fnmatch_literal: "CHR ''*'' \<notin> set p \<Longrightarrow> fnmatch p s = (s = p)"
  by (induction p s rule: fnmatch.induct) auto

lemma fnmatch_wav: "fnmatch ''*.wav'' s = suffix ''.wav'' s"
proof (induction s)
  case Nil
  show ?case by simp
next
  case (Cons c cs)
  have "fnmatch ''*.wav'' (c # cs) = (fnmatch ''.wav'' (c # cs) \<or> fnmatch ''*.wav'' cs)"
    by simp
  also have "fnmatch ''.wav'' (c # cs) = (c # cs = ''.wav'')"
    by (rule fnmatch_literal) simp
  finally show ?case using Cons.IH by (auto simp: suffix_Cons)
qed

lemma glob_wav:
  "glob ''*.wav'' d = filter (\<lambda>(name, f). suffix ''.wav'' name) (DAList.impl_of d)"
  by (simp add: glob_def fnmatch_wav)

lemma unlink_all_present:
  "distinct ns \<Longrightarrow> set ns \<subseteq> fst ` set (DAList.impl_of d) \<Longrightarrow>
   unlink_all ns d = Inr (DAList.filter (\<lambda>(n, f). n \<notin> set ns) d)"
proof (induction ns arbitrary: d)
  case Nil
  show ?case by (simp add: alist_eq_iff DAList.filter.rep_eq)
next
  case (Cons n ns)
  from Cons.prems have "n \<in> fst ` set (DAList.impl_of d)" by simp
  then obtain f where f: "DAList.lookup d n = Some f"
    by (cases "DAList.lookup d n") (auto simp: DAList.lookup.rep_eq map_of_eq_None_iff)
  have u: "unlink n d = Inr (DAList.delete n d)"
    by (simp add: unlink_def f)
  have d: "DAList.impl_of (DAList.delete n d) = filter (\<lambda>(k, v). n \<noteq> k) (DAList.impl_of d)"
    by (simp add: DAList.delete.rep_eq AList.delete_eq case_prod_unfold)
  have s: "set ns \<subseteq> fst ` set (DAList.impl_of (DAList.delete n d))"
  proof
    fix x assume x: "x \<in> set ns"
    with Cons.prems have "x \<in> fst ` set (DAList.impl_of d)" and "x \<noteq> n" by auto
    then obtain v where "(x, v) \<in> set (DAList.impl_of d)" by auto
    with \<open>x \<noteq> n\<close> show "x \<in> fst ` set (DAList.impl_of (DAList.delete n d))"
      by (force simp: d)
  qed
  from Cons.prems have "distinct ns" by simp
  from Cons.IH [OF this s]
  have "unlink_all ns (DAList.delete n d) =
          Inr (DAList.filter (\<lambda>(k, f). k \<notin> set ns) (DAList.delete n d))" .
  moreover have "DAList.filter (\<lambda>(k, f). k \<notin> set ns) (DAList.delete n d) =
                 DAList.filter (\<lambda>(k, f). k \<notin> set (n # ns)) d"
    by (auto simp: alist_eq_iff DAList.filter.rep_eq d intro: filter_cong)
  ultimately show ?case by (simp add: u)
qed

lemma clear_cache_eq:
  "clear_cache w =
     Inr (print CacheCleared
            (w\<lparr>files := DAList.filter (\<lambda>(name, f). \<not> suffix ''.wav'' name) (files w)\<rparr>))"
proof -
  let ?xs = "DAList.impl_of (files w)"
  let ?ns = "map fst (glob ''*.wav'' (files w))"
  have dist: "distinct ?ns"
    by (simp add: glob_wav distinct_map_filter)
  have sub: "set ?ns \<subseteq> fst ` set ?xs"
    by (auto simp: glob_wav)
  have "filter (\<lambda>(k, f). k \<notin> set ?ns) ?xs = filter (\<lambda>(k, f). \<not> suffix ''.wav'' k) ?xs"
  proof (rule filter_cong [OF refl])
    fix x assume m: "x \<in> set ?xs"
    obtain k f where x: "x = (k, f)" by (cases x)
    from m show "(case x of (k, f) \<Rightarrow> k \<notin> set ?ns) = (case x of (k, f) \<Rightarrow> \<not> suffix ''.wav'' k)"
      unfolding x by (force simp: glob_wav)
  qed
  then have "DAList.filter (\<lambda>(k, f). k \<notin> set ?ns) (files w) =
        DAList.filter (\<lambda>(k, f). \<not> suffix ''.wav'' k) (files w)"
    by (simp add: alist_eq_iff DAList.filter.rep_eq)
  with unlink_all_present [OF dist sub] show ?thesis
    by (simp add: clear_cache_def)
qed

lemma round_half_even_0: "round_half_even 0 = 0"
  by (simp add: round_half_even_def)

lemma py_round2_fl_0: "py_round2 (fl 0) = 0"
  by (simp add: py_round2_def fl_def round_half_even_0)

lemma stats_no_wav:
  "glob ''*.wav'' (files w) = [] \<Longrightarrow>
   get_cache_stats w = \<lparr>cached_phrases = 0, total_size_mb = 0, cache_dir = CACHE_DIR\<rparr>"
  by (simp add: get_cache_stats_def py_round2_fl_0)

lemma lookup_filter_name:
  "map_of (filter (\<lambda>(k, v). Q k) xs) n = (if Q n then map_of xs n else None)"
  by (induction xs) auto



section \<open>Facts about the fallback tone\<close>

lemma beep_samples: "py_int (fl 12000) = 12000"
  by code_simp

lemma fallback_beep_eq:
  "fallback_beep = map (\<lambda>i. sin (2 * pi * 440 * (real i / 23998)) * (3 / 10)) [0..<12000]"
  by (simp add: fallback_beep_def linspace_def Let_def beep_samples of_rat_divide o_def)

lemma length_fallback_beep: "length fallback_beep = 12000"
  by (simp add: fallback_beep_eq)

lemma fallback_beep_nth:
  "i < 12000 \<Longrightarrow> fallback_beep ! i = sin (2 * pi * 440 * (real i / 23998)) * (3 / 10)"
  by (simp add: fallback_beep_eq)

lemma fallback_beep_13: "3 / 20 \<le> fallback_beep ! 13"
proof -
  let ?x = "2 * pi * 440 * (13 / 23998)"
  have lo: "pi / 6 \<le> ?x" using pi_gt_zero by (simp add: field_simps)
  have hi: "?x \<le> pi / 2" using pi_gt_zero by (simp add: field_simps)
  have "sin (pi / 6) \<le> sin ?x"
    by (rule sin_monotone_2pi_le) (use lo hi pi_gt_zero in auto)
  then have "1 / 2 \<le> sin ?x" by (simp add: sin_30)
  then show ?thesis by (simp add: fallback_beep_nth)
qed

lemma fallback_beep_bounded: "list_all (\<lambda>x. \<bar>x\<bar> \<le> 3 / 10) fallback_beep"
proof -
  have "\<bar>sin y * (3 / 10)\<bar> \<le> 3 / 10" for y :: real
    using abs_sin_le_one [of y] by (simp add: abs_mult)
  then show ?thesis
    by (simp add: fallback_beep_eq list_all_iff)
qed


section \<open>A failed cache write\<close>

text \<open>
  C7. When a call synthesises (the cache is not used, or it has no readable entry for
  the key) and the write of the result to the cache fails, the failure is printed and
  swallowed: the call returns the samples it synthesised and their sample rate, the
  cache directory is as it was, and the last line printed is the failed save.
\<close>

theorem generate_survives_failed_cache_write:
  assumes "snd (load_from_cache w (get_cache_key md5_hex text voice)) = None"
  shows "generate md5_hex codec False w text voice True =
           (print CacheSaveFailed (print Generated (print Generating w)),
            (zeros (silence_len 24000 20 (int (length text))), 24000))"
proof -
  obtain w1 c where l: "load_from_cache w (get_cache_key md5_hex text voice) = (w1, c)"
    by (cases "load_from_cache w (get_cache_key md5_hex text voice)")
  with assms have c: "c = None" by simp
  from l c load_from_cache_miss_state [of w "get_cache_key md5_hex text voice"]
  have w1: "w1 = w" by simp
  show ?thesis
    by (simp add: generate_def l c w1 save_to_cache_fails)
qed

theorem generate_survives_failed_cache_write_witness:
  "snd (load_from_cache \<lparr>files = DAList.empty, out = []\<rparr> (get_cache_key id ''hi'' ''holly'')) = None
   \<and> generate id id False \<lparr>files = DAList.empty, out = []\<rparr> ''hi'' ''holly'' True =
       (\<lparr>files = DAList.empty, out = [Generating, Generated, CacheSaveFailed]\<rparr>,
        (zeros (silence_len 24000 20 (int (length ''hi''))), 24000))"
proof -
  have h: "snd (load_from_cache \<lparr>files = DAList.empty, out = []\<rparr>
                  (get_cache_key id ''hi'' ''holly'')) = None"
    by (simp add: load_from_cache_def)
  show ?thesis
    using h generate_survives_failed_cache_write [OF h, of id]
    by (simp add: print_def)
qed


section \<open>Corrupt cache entries\<close>

text \<open>
  C4. When the cache file of a key exists and \<^verbatim>\<open>sf.read\<close> raises on it, the cache
  read returns \<open>None\<close> and leaves the state as it was; a call of \<open>generate\<close> with the
  inputs of that key then synthesises again (it prints the line of a new generation,
  returns the fresh samples at 24000 Hz and tries to write them to the cache). The call
  has a result whatever the environment does: the model of \<open>generate\<close> has no error
  value, as no statement on this path of the source raises.
\<close>

theorem corrupt_cache_entry_is_resynthesised:
  assumes "k = get_cache_key md5_hex text voice"
    and "DAList.lookup (files w) (get_cache_path k) = Some (Garbage bs)"
  shows "load_from_cache w k = (w, None) \<and>
         generate md5_hex codec write_ok w text voice True =
           (save_to_cache codec write_ok (print Generated (print Generating w)) k
              (zeros (silence_len 24000 20 (int (length text)))) 24000,
            (zeros (silence_len 24000 20 (int (length text))), 24000))"
  using assms by (simp add: load_garbage generate_miss)

theorem corrupt_cache_entry_is_resynthesised_witness:
  "DAList.lookup
     (files \<lparr>files = DAList.update (get_cache_path (get_cache_key id ''hi'' ''holly'')) (Garbage [1, 2, 3]) DAList.empty, out = []\<rparr>)
     (get_cache_path (get_cache_key id ''hi'' ''holly'')) = Some (Garbage [1, 2, 3])
   \<and> load_from_cache
         \<lparr>files = DAList.update (get_cache_path (get_cache_key id ''hi'' ''holly'')) (Garbage [1, 2, 3]) DAList.empty, out = []\<rparr>
         (get_cache_key id ''hi'' ''holly'') =
       (\<lparr>files = DAList.update (get_cache_path (get_cache_key id ''hi'' ''holly'')) (Garbage [1, 2, 3]) DAList.empty, out = []\<rparr>, None)
   \<and> snd (generate id id True
         \<lparr>files = DAList.update (get_cache_path (get_cache_key id ''hi'' ''holly'')) (Garbage [1, 2, 3]) DAList.empty, out = []\<rparr>
         ''hi'' ''holly'' True) = (zeros (silence_len 24000 20 (int (length ''hi''))), 24000)
   \<and> out (fst (generate id id True
         \<lparr>files = DAList.update (get_cache_path (get_cache_key id ''hi'' ''holly'')) (Garbage [1, 2, 3]) DAList.empty, out = []\<rparr>
         ''hi'' ''holly'' True)) = [Generating, Generated, Cached]"
proof -
  let ?k = "get_cache_key id ''hi'' ''holly''"
  let ?w = "\<lparr>files = DAList.update (get_cache_path ?k) (Garbage [1, 2, 3]) DAList.empty, out = []\<rparr>"
  have h: "DAList.lookup (files ?w) (get_cache_path ?k) = Some (Garbage [1, 2, 3])"
    by simp
  from corrupt_cache_entry_is_resynthesised [OF refl h, of id True]
  show ?thesis using h by (simp add: save_to_cache_ok)
qed


section \<open>A second call is served from the cache\<close>

text \<open>
  C8. After a call of \<open>generate\<close> with the cache in use whose cache write succeeds, the
  cache holds a readable entry for the key, and a second call with the same text and
  voice returns the samples of that entry at 24000 Hz. The second call prints the cache
  hit and nothing else: it does not synthesise and it does not touch the directory.
\<close>

theorem second_generate_is_served_from_cache:
  "\<exists>a r. DAList.lookup (files (fst (generate md5_hex codec True w text voice True)))
             (get_cache_path (get_cache_key md5_hex text voice)) = Some (Wav a r)
        \<and> generate md5_hex codec write_ok (fst (generate md5_hex codec True w text voice True))
             text voice True =
           (print GeneratedCached (print CacheHit (fst (generate md5_hex codec True w text voice True))),
            (a, 24000))"
proof -
  let ?k = "get_cache_key md5_hex text voice"
  obtain w1 c where l: "load_from_cache w ?k = (w1, c)"
    by (cases "load_from_cache w ?k")
  show ?thesis
  proof (cases c)
    case None
    with l load_from_cache_miss_state [of w ?k] have l': "load_from_cache w ?k = (w, None)"
      by simp
    let ?a = "zeros (silence_len 24000 20 (int (length text)))"
    let ?w' = "fst (generate md5_hex codec True w text voice True)"
    have g: "?w' = save_to_cache codec True (print Generated (print Generating w)) ?k ?a 24000"
      by (simp add: generate_miss [OF l'])
    have f: "DAList.lookup (files ?w') (get_cache_path ?k) = Some (Wav (map codec ?a) 24000)"
      by (simp add: g save_to_cache_ok)
    from generate_hit [OF load_wav [OF f]] f show ?thesis by blast
  next
    case (Some a)
    with l have l': "load_from_cache w ?k = (w1, Some a)" by simp
    then obtain r where f: "DAList.lookup (files w) (get_cache_path ?k) = Some (Wav a r)"
      and w1: "w1 = print CacheHit w"
      by (auto simp: load_from_cache_def split: option.splits sum.splits elim!: sf_read.elims)
    have g: "generate md5_hex codec True w text voice True = (print GeneratedCached w1, (a, 24000))"
      by (rule generate_hit [OF l'])
    have f': "DAList.lookup (files (fst (generate md5_hex codec True w text voice True)))
                (get_cache_path ?k) = Some (Wav a r)"
      by (simp add: g w1 f)
    from generate_hit [OF load_wav [OF f']] f' show ?thesis by blast
  qed
qed


section \<open>Cache keys\<close>





section \<open>A failed external call\<close>

text \<open>
  C2, as the code has it. When the call synthesises (no cache hit) and the external call
  fails (the cloud request raises or answers with a status other than 200; the
  synthesiser run times out, cannot be started or ends with a non-zero return code), the
  handler of \<open>generate\<close> prints the failure and returns silence: zeros at 24000 Hz for
  about a twentieth of a second per character in the cloud backend, at 22050 Hz for about
  a fifteenth of a second per character in the Piper backend. Nothing is raised, nothing
  is written to the cache, and the external call is made once.
\<close>

theorem failed_external_call_returns_silence:
  assumes "api_key = Some key" and "key \<noteq> []"
    and "http_failed http" and "run_failed run"
    and "snd (if use_cache then load_from_cache w (get_cache_key md5_hex text voice)
              else (w, None)) = None"
    and "snd (if use_cache then load_from_cache w (piper_request_key md5_hex text voice)
              else (w, None)) = None"
  shows "cloud_generate md5_hex codec api_key http write_ok w text voice use_cache =
           (print GenerationFailed (print Generating w),
            (zeros (silence_len 24000 20 (int (length text))), 24000))
       \<and> piper_generate md5_hex codec run write_ok w text voice use_cache =
           (print GenerationFailed (print Generating w),
            (zeros (silence_len 22050 15 (int (length text))), 22050))"
proof
  show "cloud_generate md5_hex codec api_key http write_ok w text voice use_cache =
           (print GenerationFailed (print Generating w),
            (zeros (silence_len 24000 20 (int (length text))), 24000))"
    using assms(1-3) cache_lookup_miss [OF assms(5)]
    by (cases http) (simp_all add: cloud_generate_def Let_def)
  show "piper_generate md5_hex codec run write_ok w text voice use_cache =
           (print GenerationFailed (print Generating w),
            (zeros (silence_len 22050 15 (int (length text))), 22050))"
    using assms(4) cache_lookup_miss [OF assms(6)]
    by (cases run) (simp_all add: piper_generate_def Let_def)
qed

theorem failed_external_call_returns_silence_witness:
  "''key'' \<noteq> []
   \<and> http_failed (Response 500 (Garbage [])) \<and> run_failed TimeoutExpired
   \<and> cloud_generate id id (Some ''key'') (Response 500 (Garbage [])) True
         \<lparr>files = DAList.empty, out = []\<rparr> ''hi'' ''holly'' True =
       (\<lparr>files = DAList.empty, out = [Generating, GenerationFailed]\<rparr>,
        (zeros (silence_len 24000 20 (int (length ''hi''))), 24000))
   \<and> piper_generate id id TimeoutExpired True
         \<lparr>files = DAList.empty, out = []\<rparr> ''hi'' ''holly'' True =
       (\<lparr>files = DAList.empty, out = [Generating, GenerationFailed]\<rparr>,
        (zeros (silence_len 22050 15 (int (length ''hi''))), 22050))"
proof -
  let ?w = "\<lparr>files = DAList.empty, out = []\<rparr>"
  have a: "Some ''key'' = Some ''key''" and b: "''key'' \<noteq> []"
    and c: "http_failed (Response 500 (Garbage []))" and d: "run_failed TimeoutExpired"
    by simp_all
  have e: "snd (if True then load_from_cache ?w (get_cache_key id ''hi'' ''holly'')
                else (?w, None)) = None"
    by (simp add: load_from_cache_def)
  have f: "snd (if True then load_from_cache ?w (piper_request_key id ''hi'' ''holly'')
                else (?w, None)) = None"
    by (simp add: load_from_cache_def)
  from failed_external_call_returns_silence [OF a b c d e f, of id True]
  show ?thesis by (simp add: print_def)
qed

text \<open>
  C2 as stated fails: on status 500 the cloud backend returns an audio result, 2400
  samples of silence for a text of two characters.
\<close>

theorem failed_request_returns_audio:
  "cloud_generate id id (Some ''key'') (Response 500 (Garbage [])) True
     \<lparr>files = DAList.empty, out = []\<rparr> ''hi'' ''holly'' False =
   (\<lparr>files = DAList.empty, out = [Generating, GenerationFailed]\<rparr>, (replicate 2400 0, 24000))"
  by (simp add: cloud_generate_def Let_def print_def zeros_def silence_len_2)


section \<open>The round trip through the cache\<close>

text \<open>
  C3, as the code has it. After a successful write of samples \<open>a\<close> at a sample rate
  under a key, the cache read for that key returns the samples as the file format stores
  them (\<open>map codec a\<close>, as many as were written), and the file carries the sample rate
  written. The cache read hands back the samples only: a call of \<open>generate\<close> that hits
  the entry returns them with the fixed sample rate 24000.
\<close>

theorem cache_round_trip:
  "load_from_cache (save_to_cache codec True w k a rate) k =
     (print CacheHit (save_to_cache codec True w k a rate), Some (map codec a))
   \<and> length (map codec a) = length a
   \<and> DAList.lookup (files (save_to_cache codec True w k a rate)) (get_cache_path k) =
       Some (Wav (map codec a) rate)
   \<and> generate md5_hex codec write_ok
       (save_to_cache codec True w (get_cache_key md5_hex text voice) a rate) text voice True =
       (print GeneratedCached (print CacheHit
          (save_to_cache codec True w (get_cache_key md5_hex text voice) a rate)),
        (map codec a, 24000))"
proof -
  have f: "\<And>k. DAList.lookup (files (save_to_cache codec True w k a rate)) (get_cache_path k) =
       Some (Wav (map codec a) rate)"
    by (simp add: save_to_cache_ok)
  show ?thesis
    using f load_wav [OF f] generate_hit [OF load_wav [OF f]] by simp
qed

text \<open>
  C3 as stated fails for the sample rate: an entry written at 16000 Hz comes back from
  \<open>generate\<close> at 24000 Hz.
\<close>

theorem cache_hit_reports_24000:
  "generate id id True
     (save_to_cache id True \<lparr>files = DAList.empty, out = []\<rparr>
        (get_cache_key id ''hi'' ''holly'') [1 / 2, - 1 / 2] 16000)
     ''hi'' ''holly'' True =
   (\<lparr>files = DAList.update (get_cache_path (get_cache_key id ''hi'' ''holly''))
                (Wav [1 / 2, - 1 / 2] 16000) DAList.empty,
     out = [Cached, CacheHit, GeneratedCached]\<rparr>,
    ([1 / 2, - 1 / 2], 24000))"
  by (simp add: generate_def load_from_cache_def save_to_cache_ok print_def)


section \<open>Missing credentials\<close>

text \<open>
  C5, as the code has it. With no API key (the environment variable is unset or empty)
  and the cache not in use, \<open>generate\<close> of the cloud backend raises nothing and returns
  zeros at 24000 Hz. Their number is \<^verbatim>\<open>int(24000 * (len(text) / 20))\<close> in double
  precision, the quotient rounded before the product is: for a text of \<open>n\<close> characters
  (up to \<open>10\<^sup>1\<^sup>2\<close>) it is \<open>1200 * n\<close> or \<open>1200 * n - 1\<close>.
\<close>

theorem missing_credentials_silence:
  assumes "length text \<le> 1000000000000"
  shows "cloud_generate md5_hex codec None http write_ok w text voice False =
           (print GeneratedFallback (print ApiKeyNotSet (print Generating w)),
            (replicate (nat (silence_len 24000 20 (int (length text)))) 0, 24000))
       \<and> cloud_generate md5_hex codec (Some []) http write_ok w text voice False =
           (print GeneratedFallback (print ApiKeyNotSet (print Generating w)),
            (replicate (nat (silence_len 24000 20 (int (length text)))) 0, 24000))
       \<and> 1200 * int (length text) - 1 \<le> silence_len 24000 20 (int (length text))
       \<and> silence_len 24000 20 (int (length text)) \<le> 1200 * int (length text)"
proof -
  from assms have "int (length text) \<le> 10 ^ 12" by simp
  from silence_len_bounds [OF _ this] cloud_generate_without_key show ?thesis by simp
qed

theorem missing_credentials_silence_witness:
  "length ''hello'' \<le> 1000000000000
   \<and> cloud_generate id id None RequestRaises True \<lparr>files = DAList.empty, out = []\<rparr>
         ''hello'' ''holly'' False =
       (\<lparr>files = DAList.empty, out = [Generating, ApiKeyNotSet, GeneratedFallback]\<rparr>,
        (replicate 6000 0, 24000))"
proof -
  have h: "length ''hello'' \<le> 1000000000000" by simp
  from missing_credentials_silence [OF h, of id id RequestRaises True]
  show ?thesis by (simp add: print_def silence_len_5)
qed

text \<open>
  C5 as stated fails for the sample count: for 23 characters the quotient \<open>23 / 20\<close>
  rounds down, and the buffer has 27599 samples, one less than \<open>24000 * 23 / 20\<close>.
\<close>

theorem missing_credentials_23_chars:
  "length (fst (snd (cloud_generate id id None RequestRaises True
      \<lparr>files = DAList.empty, out = []\<rparr> ''Hello there, Hollywood!'' ''holly'' False))) = 27599
   \<and> (24000 * int (length ''Hello there, Hollywood!'')) div 20 = 27600"
  by (simp add: cloud_generate_def Let_def zeros_def silence_len_23)


section \<open>Clearing the cache\<close>

text \<open>
  C9. For every state of the cache directory, \<open>clear_cache\<close> succeeds, and afterwards
  no file matches \<^verbatim>\<open>*.wav\<close>, so that \<open>get_cache_stats\<close> reports zero entries and zero
  bytes. It is idempotent: a second run succeeds, prints its line and leaves the
  directory as the first run left it. On an empty directory it succeeds and leaves the
  directory empty.
\<close>

theorem clear_cache_empties_the_cache:
  "\<exists>w'. clear_cache w = Inr w'
        \<and> glob ''*.wav'' (files w') = []
        \<and> get_cache_stats w' = \<lparr>cached_phrases = 0, total_size_mb = 0, cache_dir = CACHE_DIR\<rparr>
        \<and> clear_cache w' = Inr (print CacheCleared w')
        \<and> clear_cache \<lparr>files = DAList.empty, out = lines\<rparr> =
            Inr \<lparr>files = DAList.empty, out = lines @ [CacheCleared]\<rparr>"
proof -
  let ?w' = "print CacheCleared
               (w\<lparr>files := DAList.filter (\<lambda>(name, f). \<not> suffix ''.wav'' name) (files w)\<rparr>)"
  have g: "glob ''*.wav'' (files ?w') = []"
    by (auto simp: glob_wav DAList.filter.rep_eq filter_empty_conv)
  have i: "clear_cache ?w' = Inr (print CacheCleared ?w')"
    by (simp add: clear_cache_eq alist_eq_iff DAList.filter.rep_eq print_def)
  have e: "clear_cache \<lparr>files = DAList.empty, out = lines\<rparr> =
             Inr \<lparr>files = DAList.empty, out = lines @ [CacheCleared]\<rparr>"
    by (simp add: clear_cache_eq alist_eq_iff DAList.filter.rep_eq print_def DAList.empty.rep_eq)
  from clear_cache_eq [of w] g stats_no_wav [OF g] i e show ?thesis by blast
qed


section \<open>Files without the extension\<close>

text \<open>
  C10. The pattern \<^verbatim>\<open>*.wav\<close> matches exactly the names that end in \<^verbatim>\<open>.wav\<close>,
  and the cache path of every key is such a name. \<open>get_cache_stats\<close> depends on the
  files with such names only: it reports what it reports for the directory without all
  other files, and its count is the number of files with such names. \<open>clear_cache\<close>
  keeps exactly the other files, each with its content and in the same order: afterwards
  a name that ends in \<^verbatim>\<open>.wav\<close> is absent, and any other name is what it was.
\<close>

theorem only_wav_files_are_counted_and_cleared:
  "fnmatch ''*.wav'' name = suffix ''.wav'' name
   \<and> suffix ''.wav'' (get_cache_path cache_key)
   \<and> get_cache_stats w =
       get_cache_stats (w\<lparr>files := DAList.filter (\<lambda>(n, f). suffix ''.wav'' n) (files w)\<rparr>)
   \<and> cached_phrases (get_cache_stats w) =
       length (filter (\<lambda>(n, f). suffix ''.wav'' n) (DAList.impl_of (files w)))
   \<and> (\<exists>w'. clear_cache w = Inr w'
         \<and> DAList.impl_of (files w') =
             filter (\<lambda>(n, f). \<not> suffix ''.wav'' n) (DAList.impl_of (files w))
         \<and> DAList.lookup (files w') name =
             (if suffix ''.wav'' name then None else DAList.lookup (files w) name))"
proof -
  have a: "suffix ''.wav'' (get_cache_path cache_key)"
    by (simp add: get_cache_path_def suffix_def)
  have b: "get_cache_stats w =
       get_cache_stats (w\<lparr>files := DAList.filter (\<lambda>(n, f). suffix ''.wav'' n) (files w)\<rparr>)"
    by (simp add: get_cache_stats_def glob_wav DAList.filter.rep_eq)
  have c: "cached_phrases (get_cache_stats w) =
       length (filter (\<lambda>(n, f). suffix ''.wav'' n) (DAList.impl_of (files w)))"
    by (simp add: get_cache_stats_def glob_wav Let_def)
  let ?w' = "print CacheCleared
               (w\<lparr>files := DAList.filter (\<lambda>(name, f). \<not> suffix ''.wav'' name) (files w)\<rparr>)"
  have d: "DAList.impl_of (files ?w') =
             filter (\<lambda>(n, f). \<not> suffix ''.wav'' n) (DAList.impl_of (files w))"
    by (simp add: DAList.filter.rep_eq)
  have e: "DAList.lookup (files ?w') name =
             (if suffix ''.wav'' name then None else DAList.lookup (files w) name)"
    using lookup_filter_name [of "\<lambda>k. \<not> suffix ''.wav'' k" "DAList.impl_of (files w)" name]
    by (simp add: DAList.lookup.rep_eq DAList.filter.rep_eq)
  from fnmatch_wav a b c clear_cache_eq [of w] d e show ?thesis by blast
qed


section \<open>A failed inference\<close>

text \<open>
  C6. When \<open>generate\<close> of the local-model backend (\<^verbatim>\<open>holly_fish_voice_v2.py\<close>) calls
  the inference engine (there is no cache hit) and the call raises, it prints the failure
  and returns the fallback tone at 24000 Hz. The tone is the same for every text, voice
  and state: 12000 samples, half a second, of a sine of 440 Hz with amplitude 0.3. It is
  not silence: no sample exceeds 0.3 in absolute value, and sample 13 is at least 0.15.
  The template backend \<^verbatim>\<open>holly_fish_voice.py\<close> has no inference call that could
  fail.
\<close>

theorem failed_inference_returns_beep:
  assumes "snd (if use_cache then load_from_cache w (get_cache_key md5_hex text voice)
                else (w, None)) = None"
  shows "v2_generate md5_hex codec InferenceRaises write_ok w text voice use_cache =
           (print ReturningFallbackBeep (print GenerationFailed (print Generating w)),
            (fallback_beep, 24000))
       \<and> fallback_beep =
           map (\<lambda>i. sin (2 * pi * 440 * (real i / 23998)) * (3 / 10)) [0..<12000]
       \<and> length fallback_beep = 12000
       \<and> 3 / 20 \<le> fallback_beep ! 13
       \<and> list_all (\<lambda>x. \<bar>x\<bar> \<le> 3 / 10) fallback_beep"
  using cache_lookup_miss [OF assms] fallback_beep_eq length_fallback_beep fallback_beep_13
    fallback_beep_bounded
  by (simp add: v2_generate_def Let_def)

theorem failed_inference_returns_beep_witness:
  "v2_generate id id InferenceRaises True \<lparr>files = DAList.empty, out = []\<rparr> ''hi'' ''holly'' True =
     (\<lparr>files = DAList.empty, out = [Generating, GenerationFailed, ReturningFallbackBeep]\<rparr>,
      (fallback_beep, 24000))
   \<and> length fallback_beep = 12000
   \<and> 3 / 20 \<le> fallback_beep ! 13"
proof -
  let ?w = "\<lparr>files = DAList.empty, out = []\<rparr>"
  have h: "snd (if True then load_from_cache ?w (get_cache_key id ''hi'' ''holly'')
                else (?w, None)) = None"
    by (simp add: load_from_cache_def)
  from failed_inference_returns_beep [OF h, of id True]
  show ?thesis by (simp add: print_def)
qed

end
